theory Spec2Isabelle
  imports Complex_Main "HOL-Library.AList"
begin

section \<open>JavaScript values\<close>

text \<open>
  The pages exchange data with the browser store and with the backend as JSON.
  A JSON object keeps its properties in insertion order, so it is an association
  list; a property lookup \<open>o.k\<close> is \<open>map_of o k\<close>, with \<open>None\<close> for \<open>undefined\<close>.

  \<open>JIso t\<close> stands for the date-time string that \<open>Date.toISOString()\<close> yields for
  the instant \<open>t\<close> (milliseconds since the epoch); \<open>JStr\<close> carries every other
  string.  Numbers that occur are integers (milliseconds, seconds, counts), all far
  below \<open>2^53\<close>, where the arithmetic of doubles is exact.
\<close>

datatype json =
    JNull
  | JBool bool
  | JNum int
  | JStr string
  | JIso int
  | JArr "json list"
  | JObj "(string \<times> json) list"

type_synonym obj = "(string \<times> json) list"

text \<open>A JavaScript number held in component state: an integer or \<open>NaN\<close>.\<close>

datatype number = Num int | NaN

text \<open>Truthiness of a property value (\<open>None\<close> is \<open>undefined\<close>).\<close>

fun truthy :: "json option \<Rightarrow> bool" where
  "truthy None = False"
| "truthy (Some JNull) = False"
| "truthy (Some (JBool b)) = b"
| "truthy (Some (JNum n)) = (n \<noteq> 0)"
| "truthy (Some (JStr s)) = (s \<noteq> [])"
| "truthy (Some (JIso t)) = True"
| "truthy (Some (JArr xs)) = True"
| "truthy (Some (JObj fs)) = True"

text \<open>
  An object literal \<open>{...base, k1: v1, ..., kn: vn}\<close>: the properties of \<open>base\<close> are
  copied, then each listed property is set, replacing a property of the same name
  in place and appending a new one.
\<close>

definition spread :: "obj \<Rightarrow> (string \<times> json) list \<Rightarrow> obj" where
  "spread base fields = foldl (\<lambda>acc (k, v). AList.update k v acc) base fields"

text \<open>
  \<open>JSON.stringify\<close> leaves out a property whose value is \<open>undefined\<close> and writes
  \<open>NaN\<close> as \<open>null\<close>; stored and posted objects are modelled as they are read back.
\<close>

fun defined_fields :: "(string \<times> json option) list \<Rightarrow> obj" where
  "defined_fields [] = []"
| "defined_fields ((k, None) # fs) = defined_fields fs"
| "defined_fields ((k, Some v) # fs) = (k, v) # defined_fields fs"

fun json_number :: "number \<Rightarrow> json" where
  "json_number (Num n) = JNum n"
| "json_number NaN = JNull"

text \<open>\<open>new Date().toISOString()\<close> at the instant \<open>now\<close>.\<close>

definition toISOString :: "int \<Rightarrow> json" where
  "toISOString now = JIso now"

text \<open>
  \<open>new Date(v).getTime()\<close>: a date-time string gives its instant back, a number
  inside the range of \<open>Date\<close> is the instant itself, \<open>null\<close> and booleans convert to
  numbers, and \<open>undefined\<close> or a text that is no date gives \<open>NaN\<close>.
\<close>

fun date_getTime :: "json option \<Rightarrow> number" where
  "date_getTime (Some (JIso t)) = Num t"
| "date_getTime (Some (JNum n)) = (if \<bar>n\<bar> \<le> 8640000000000000 then Num n else NaN)"
| "date_getTime (Some JNull) = Num 0"
| "date_getTime (Some (JBool b)) = Num (if b then 1 else 0)"
| "date_getTime _ = NaN"

text \<open>\<open>Math.floor(a / b)\<close> and the remainder \<open>a % b\<close> (sign of the dividend).\<close>

definition floor_div :: "int \<Rightarrow> int \<Rightarrow> int" where
  "floor_div a b = \<lfloor>real_of_int a / real_of_int b\<rfloor>"

definition js_rem :: "int \<Rightarrow> int \<Rightarrow> int" where
  "js_rem a b = sgn a * (\<bar>a\<bar> mod \<bar>b\<bar>)"

section \<open>Decimal text\<close>

definition digit_char :: "nat \<Rightarrow> char" where
  "digit_char d = ''0123456789'' ! d"

definition is_digit :: "char \<Rightarrow> bool" where
  "is_digit c = (48 \<le> (of_char c :: nat) \<and> (of_char c :: nat) \<le> 57)"

definition digit_value :: "char \<Rightarrow> nat" where
  "digit_value c = of_char c - 48"

fun nat_toString :: "nat \<Rightarrow> string" where
  "nat_toString n =
     (if n < 10 then [digit_char n]
      else nat_toString (n div 10) @ [digit_char (n mod 10)])"

text \<open>\<open>Number.prototype.toString()\<close> on an integer.\<close>

definition toString :: "int \<Rightarrow> string" where
  "toString i = (if i < 0 then CHR ''-'' # nat_toString (nat (- i)) else nat_toString (nat i))"

text \<open>\<open>s.padStart(targetLength, padString)\<close>.\<close>

definition padStart :: "nat \<Rightarrow> string \<Rightarrow> string \<Rightarrow> string" where
  "padStart targetLength padString s =
     (if targetLength \<le> length s \<or> padString = [] then s
      else take (targetLength - length s)
             (concat (replicate (targetLength - length s) padString)) @ s)"

section \<open>The browser and the backend\<close>

datatype variant = Default | Destructive

text \<open>A template literal keeps its interpolated values apart from its text.\<close>

datatype piece = Lit string | Val "json option"

record toast =
  title :: string
  description :: "piece list"
  variant :: variant

datatype api_call =
    SaveTaskDetailsAndStart obj
  | StopInterventions
  | SaveAssessment obj

text \<open>
  The outcome of an awaited call of \<open>apiService\<close>: the JSON object parsed from the
  response, or the error it throws (with its \<open>message\<close>) when the request fails,
  the body is no JSON or the status is not ok.  A response is taken to be an
  object, as the handlers read it (\<open>result.status\<close>, \<open>result.message\<close>, ...); nothing
  is assumed about its fields.
\<close>

datatype promise = Resolved obj | Rejected string

datatype effect =
    SetItem string obj
  | RemoveItem string
  | ApiCall api_call
  | Toast toast
  | Navigate string
  | WindowOpen string
  | ConsoleError string

text \<open>
  What a handler can reach outside its component: \<open>localStorage\<close>, and the trace of
  everything it did, in order.  An item of the store is modelled by the object that
  \<open>JSON.parse\<close> reads from it.  The pages read a stored task as \<open>any\<close>, so nothing
  is assumed about the fields of a stored object.
\<close>

record world =
  localStorage :: "string \<rightharpoonup> obj"
  effects :: "effect list"

definition setItem :: "string \<Rightarrow> obj \<Rightarrow> world \<Rightarrow> world" where
  "setItem k v w =
     w\<lparr>localStorage := (localStorage w)(k \<mapsto> v), effects := effects w @ [SetItem k v]\<rparr>"

definition removeItem :: "string \<Rightarrow> world \<Rightarrow> world" where
  "removeItem k w =
     w\<lparr>localStorage := (localStorage w)(k := None), effects := effects w @ [RemoveItem k]\<rparr>"

definition emit :: "effect \<Rightarrow> world \<Rightarrow> world" where
  "emit e w = w\<lparr>effects := effects w @ [e]\<rparr>"

definition navigations :: "world \<Rightarrow> string list" where
  "navigations w = concat (map (\<lambda>e. case e of Navigate p \<Rightarrow> [p] | _ \<Rightarrow> []) (effects w))"

definition toasts :: "world \<Rightarrow> toast list" where
  "toasts w = concat (map (\<lambda>e. case e of Toast t \<Rightarrow> [t] | _ \<Rightarrow> []) (effects w))"

definition api_calls :: "world \<Rightarrow> api_call list" where
  "api_calls w = concat (map (\<lambda>e. case e of ApiCall c \<Rightarrow> [c] | _ \<Rightarrow> []) (effects w))"

datatype view = Loading | Content obj

section \<open>TaskSession\<close>

record TaskSession_state =
  taskData :: "obj option"
  elapsedTime :: number
  isEndingSession :: bool
  timer :: "number option"

definition TaskSession_init :: TaskSession_state where
  "TaskSession_init =
     \<lparr>taskData = None, elapsedTime = Num 0, isEndingSession = False, timer = None\<rparr>"

text \<open>
  The effect run on mount: without a stored task it redirects; otherwise it keeps
  the task and starts the interval, which holds \<open>startTime\<close> in its closure.
\<close>

definition TaskSession_mount :: "world \<Rightarrow> TaskSession_state \<times> world" where
  "TaskSession_mount w =
     (case localStorage w ''currentTask'' of
        None \<Rightarrow> (TaskSession_init, emit (Navigate ''/task-form'') w)
      | Some task \<Rightarrow>
          (TaskSession_init\<lparr>taskData := Some task,
             timer := Some (date_getTime (map_of task ''startTime''))\<rparr>, w))"

text \<open>One firing of the interval at the instant \<open>now\<close>.\<close>

definition TaskSession_tick :: "int \<Rightarrow> TaskSession_state \<Rightarrow> TaskSession_state" where
  "TaskSession_tick now st =
     (case timer st of
        None \<Rightarrow> st
      | Some NaN \<Rightarrow> st\<lparr>elapsedTime := NaN\<rparr>
      | Some (Num startTime) \<Rightarrow> st\<lparr>elapsedTime := Num (floor_div (now - startTime) 1000)\<rparr>)"

text \<open>The interval firing at each instant of a list, in order.\<close>

definition TaskSession_ticks :: "int list \<Rightarrow> TaskSession_state \<Rightarrow> TaskSession_state" where
  "TaskSession_ticks nows st = foldl (\<lambda>s now. TaskSession_tick now s) st nows"

definition formatTime :: "int \<Rightarrow> string" where
  "formatTime seconds =
     (let hours = floor_div seconds 3600;
          minutes = floor_div (js_rem seconds 3600) 60;
          remainingSeconds = js_rem seconds 60
      in if hours > 0
         then toString hours @ '':'' @ padStart 2 ''0'' (toString minutes) @ '':''
                @ padStart 2 ''0'' (toString remainingSeconds)
         else toString minutes @ '':'' @ padStart 2 ''0'' (toString remainingSeconds))"

text \<open>
  \<open>handleEndSession\<close>, with the instant \<open>now\<close> read after the awaited call and the
  outcome \<open>stop\<close> of \<open>apiService.stopInterventions()\<close>.
\<close>

definition handleEndSession ::
  "TaskSession_state \<Rightarrow> int \<Rightarrow> promise \<Rightarrow> world \<Rightarrow> TaskSession_state \<times> world" where
  "handleEndSession st now stop w =
     (case taskData st of
        None \<Rightarrow> (st, w)
      | Some td \<Rightarrow>
          if isEndingSession st then (st, w)
          else
            let w1 = emit (ApiCall StopInterventions) w in
            (case stop of
               Resolved stopResult \<Rightarrow>
                 let endTime = toISOString now;
                     success = (map_of stopResult ''status'' = Some (JStr ''success''));
                     sessionData = spread td
                       [(''endTime'', endTime),
                        (''actualDuration'', json_number (elapsedTime st)),
                        (''interventionsStopped'', JBool success)];
                     w2 = setItem ''completedTask'' sessionData w1;
                     w3 = (if success
                           then emit (Toast \<lparr>title = ''Task session ended'',
                                  description = [Lit ''Monitoring stopped successfully. Please complete the assessment forms''],
                                  variant = Default\<rparr>) w2
                           else emit (Toast \<lparr>title = ''Task session ended'',
                                  description = [Lit ''Session saved. '', Val (map_of stopResult ''message'')],
                                  variant = Destructive\<rparr>) w2);
                     w4 = emit (Navigate ''/task-results'') w3
                 in (st\<lparr>isEndingSession := False\<rparr>, w4)
             | Rejected err \<Rightarrow>
                 let w2 = emit (ConsoleError ''Error ending session:'') w1;
                     endTime = toISOString now;
                     sessionData = spread td
                       [(''endTime'', endTime),
                        (''actualDuration'', json_number (elapsedTime st)),
                        (''interventionsStopped'', JBool False),
                        (''error'', JStr ''Failed to stop interventions'')];
                     w3 = setItem ''completedTask'' sessionData w2;
                     w4 = emit (Toast \<lparr>title = ''Task session ended'',
                            description = [Lit ''Session saved, but failed to stop monitoring. Please check manually.''],
                            variant = Destructive\<rparr>) w3;
                     w5 = emit (Navigate ''/task-results'') w4
                 in (st\<lparr>isEndingSession := False\<rparr>, w5)))"

definition TaskSession_render :: "TaskSession_state \<Rightarrow> view" where
  "TaskSession_render st = (case taskData st of None \<Rightarrow> Loading | Some td \<Rightarrow> Content td)"

section \<open>Index\<close>

definition handleStartSession :: "world \<Rightarrow> world" where
  "handleStartSession w = emit (Navigate ''/task-form'') w"

section \<open>TaskForm\<close>

record formData =
  name :: string
  participantId :: string
  batch :: string
  category :: "string list"
  taskDescription :: string
  estimatedTime :: string
  systemType :: string

definition formData_init :: formData where
  "formData_init =
     \<lparr>name = [], participantId = [], batch = [], category = [], taskDescription = [],
      estimatedTime = [], systemType = []\<rparr>"

definition handleCategoryChange :: "string \<Rightarrow> bool \<Rightarrow> formData \<Rightarrow> formData" where
  "handleCategoryChange c checked prev =
     prev\<lparr>category := (if checked then category prev @ [c]
                          else filter (\<lambda>x. x \<noteq> c) (category prev))\<rparr>"

text \<open>The properties of \<open>formData\<close>, in the order of its declaration.\<close>

definition formData_json :: "formData \<Rightarrow> obj" where
  "formData_json fd =
     [(''name'', JStr (name fd)),
      (''participantId'', JStr (participantId fd)),
      (''batch'', JStr (batch fd)),
      (''category'', JArr (map JStr (category fd))),
      (''taskDescription'', JStr (taskDescription fd)),
      (''estimatedTime'', JStr (estimatedTime fd)),
      (''systemType'', JStr (systemType fd))]"

text \<open>The test of the regular expression \<open>^\d+$\<close>.\<close>

definition digits_only :: "string \<Rightarrow> bool" where
  "digits_only s = (s \<noteq> [] \<and> list_all is_digit s)"

text \<open>The first check of \<open>handleSubmit\<close>: some field is empty.\<close>

definition fields_missing :: "formData \<Rightarrow> bool" where
  "fields_missing fd =
     (name fd = [] \<or> participantId fd = [] \<or> batch fd = [] \<or> length (category fd) = 0
      \<or> taskDescription fd = [] \<or> estimatedTime fd = [] \<or> systemType fd = [])"

text \<open>
  \<open>handleSubmit\<close> of the task form at the instant \<open>now\<close>, with the outcome \<open>start\<close>
  of \<open>apiService.saveTaskDetailsAndStart(taskData)\<close>.
\<close>

definition TaskForm_handleSubmit :: "formData \<Rightarrow> int \<Rightarrow> promise \<Rightarrow> world \<Rightarrow> world" where
  "TaskForm_handleSubmit fd now start w =
     (if fields_missing fd
      then emit (Toast \<lparr>title = ''Please fill in all fields'', description = [],
                   variant = Destructive\<rparr>) w
      else if \<not> digits_only (participantId fd)
      then emit (Toast \<lparr>title = ''Invalid Participant ID'',
                   description = [Lit ''Participant ID must be a number''],
                   variant = Destructive\<rparr>) w
      else
        let task = spread (formData_json fd) [(''startTime'', toISOString now)];
            w1 = setItem ''currentTask'' task w;
            w2 = emit (ApiCall (SaveTaskDetailsAndStart task)) w1
        in (case start of
              Resolved result \<Rightarrow>
                let w3 = emit (Toast \<lparr>title = ''Task session started'',
                           description =
                             (if truthy (map_of result ''interventionsStarted'')
                              then [Lit ''Task details saved and monitoring started!'']
                              else [Lit ''Task details saved. Good luck with your task!'']),
                           variant = Default\<rparr>) w2
                in emit (Navigate ''/task-session'') w3
            | Rejected err \<Rightarrow>
                let w3 = emit (Toast \<lparr>title = ''Error'',
                           description = [Lit ''Failed to start task session. Please try again.''],
                           variant = Destructive\<rparr>) w2
                in emit (ConsoleError ''Error starting task session:'') w3))"

section \<open>TaskResults: the assessment page\<close>

record TaskResults_state =
  taskData' :: "obj option"
  uploadedFile :: "string option"
  isSubmitting :: bool
  nasaTlx :: "(string \<times> string) list"
  likertResponses :: "(string \<times> string) list"

definition TaskResults_init :: TaskResults_state where
  "TaskResults_init =
     \<lparr>taskData' = None, uploadedFile = None, isSubmitting = False,
      nasaTlx = [(''mental'', []), (''physical'', []), (''temporal'', []),
                 (''performance'', []), (''effort'', []), (''frustration'', [])],
      likertResponses = [(''accuracy'', []), (''effectiveness'', []),
                         (''personalisation'', [])]\<rparr>"

definition TaskResults_mount :: "world \<Rightarrow> TaskResults_state \<times> world" where
  "TaskResults_mount w =
     (case localStorage w ''completedTask'' of
        None \<Rightarrow> (TaskResults_init, emit (Navigate ''/'') w)
      | Some storedTask \<Rightarrow> (TaskResults_init\<lparr>taskData' := Some storedTask\<rparr>, w))"

definition handleNasaTlxChange :: "string \<Rightarrow> string \<Rightarrow> TaskResults_state \<Rightarrow> TaskResults_state" where
  "handleNasaTlxChange field val st = st\<lparr>nasaTlx := AList.update field val (nasaTlx st)\<rparr>"

definition handleLikertChange :: "string \<Rightarrow> string \<Rightarrow> TaskResults_state \<Rightarrow> TaskResults_state" where
  "handleLikertChange field val st =
     st\<lparr>likertResponses := AList.update field val (likertResponses st)\<rparr>"

text \<open>The object \<open>assessmentData\<close> built from the completed task \<open>td\<close>.\<close>

definition assessmentData :: "TaskResults_state \<Rightarrow> obj \<Rightarrow> int \<Rightarrow> obj" where
  "assessmentData st td now =
     defined_fields
       [(''participantId'', map_of td ''participantId''),
        (''batch'', map_of td ''batch''),
        (''category'', map_of td ''category''),
        (''taskDescription'', map_of td ''taskDescription''),
        (''name'', map_of td ''name''),
        (''estimatedTime'', map_of td ''estimatedTime''),
        (''file'', Some (JStr (case uploadedFile st of
                                 None \<Rightarrow> ''No file uploaded''
                               | Some n \<Rightarrow> if n = [] then ''No file uploaded'' else n))),
        (''nasaTlx'', Some (JObj (map (\<lambda>(k, v). (k, JStr v)) (nasaTlx st)))),
        (''likertResponses'', Some (JObj (map (\<lambda>(k, v). (k, JStr v)) (likertResponses st)))),
        (''submittedAt'', Some (toISOString now))]"

definition participant_missing_toast :: toast where
  "participant_missing_toast =
     \<lparr>title = ''Participant ID missing'',
      description = [Lit ''Cannot save assessment without participant ID''],
      variant = Destructive\<rparr>"

text \<open>\<open>Object.values(...).every((v) => v !== "")\<close> on the two forms.\<close>

definition nasaTlxComplete :: "TaskResults_state \<Rightarrow> bool" where
  "nasaTlxComplete st = list_all (\<lambda>v. v \<noteq> []) (map snd (nasaTlx st))"

definition likertComplete :: "TaskResults_state \<Rightarrow> bool" where
  "likertComplete st = list_all (\<lambda>v. v \<noteq> []) (map snd (likertResponses st))"

text \<open>
  \<open>handleSubmit\<close> of the assessment page at the instant \<open>now\<close>, with the outcome
  \<open>save\<close> of \<open>apiService.saveAssessment(assessmentData)\<close>.
\<close>

definition TaskResults_handleSubmit ::
  "TaskResults_state \<Rightarrow> int \<Rightarrow> promise \<Rightarrow> world \<Rightarrow> TaskResults_state \<times> world" where
  "TaskResults_handleSubmit st now save w =
     (if \<not> nasaTlxComplete st \<or> \<not> likertComplete st
         then (st, emit (Toast \<lparr>title = ''Please complete all assessment forms'',
                           description = [], variant = Destructive\<rparr>) w)
         else
           (case taskData' st of
              None \<Rightarrow> (st, emit (Toast participant_missing_toast) w)
            | Some td \<Rightarrow>
                if \<not> truthy (map_of td ''participantId'')
                then (st, emit (Toast participant_missing_toast) w)
                else
                  let data = assessmentData st td now;
                      w1 = emit (ApiCall (SaveAssessment data)) w
                  in (case save of
                        Resolved result \<Rightarrow>
                          let w2 = setItem ''sessionResults'' data w1;
                              w3 = removeItem ''currentTask'' w2;
                              w4 = removeItem ''completedTask'' w3;
                              w5 = emit (Toast \<lparr>title = ''Assessment completed!'',
                                     description =
                                       (if truthy (map_of result ''isNewFile'')
                                        then [Lit ''Assessment saved successfully'']
                                        else [Lit ''Assessment appended ('',
                                              Val (map_of result ''totalEntries''),
                                              Lit '' total entries)'']),
                                     variant = Default\<rparr>) w4;
                              w6 = emit (Navigate ''/'') w5
                          in (st\<lparr>isSubmitting := False\<rparr>, w6)
                      | Rejected message \<Rightarrow>
                          let w2 = emit (ConsoleError ''Failed to save assessment:'') w1;
                              w3 = emit (Toast \<lparr>title = ''Failed to save assessment'',
                                     description =
                                       [Lit (if message = [] then ''Please try again''
                                             else message)],
                                     variant = Destructive\<rparr>) w2
                          in (st\<lparr>isSubmitting := False\<rparr>, w3))))"

definition TaskResults_render :: "TaskResults_state \<Rightarrow> view" where
  "TaskResults_render st = (case taskData' st of None \<Rightarrow> Loading | Some td \<Rightarrow> Content td)"

section \<open>TaskResults: the feedback page\<close>

text \<open>The other variant of the page keeps the completed task as its only state.\<close>

definition Feedback_mount :: "world \<Rightarrow> obj option \<times> world" where
  "Feedback_mount w =
     (case localStorage w ''completedTask'' of
        None \<Rightarrow> (None, emit (Navigate ''/'') w)
      | Some storedTask \<Rightarrow> (Some storedTask, w))"

definition feedback_form_url :: string where
  "feedback_form_url =
     ''https://forms.cloud.microsoft/Pages/ResponsePage.aspx?id=M4x5RUMbAUy_PtjWVdM4nKa3h3dGz11PvcqBDTUv2SFUM040RUVRRldSTUVYV0kzMkVWVDc0VjRUVS4u''"

definition handleFeedbackClick :: "world \<Rightarrow> world" where
  "handleFeedbackClick w =
     (let w1 = removeItem ''currentTask'' w;
          w2 = removeItem ''completedTask'' w1;
          w3 = emit (WindowOpen feedback_form_url) w2
      in emit (Navigate ''/'') w3)"

definition Feedback_render :: "obj option \<Rightarrow> view" where
  "Feedback_render td = (case td of None \<Rightarrow> Loading | Some t \<Rightarrow> Content t)"

section \<open>Reading a rendered time\<close>

text \<open>
  The reading of a rendered time that the round trip of \<open>formatTime\<close> refers to:
  the text is cut at the colons, each component is read as a decimal numeral, and
  the components are weighted as hours, minutes and seconds.
\<close>

fun split_colon :: "string \<Rightarrow> string list" where
  "split_colon [] = [[]]"
| "split_colon (c # cs) =
     (if c = CHR '':'' then [] # split_colon cs
      else (case split_colon cs of [] \<Rightarrow> [[c]] | x # xs \<Rightarrow> (c # x) # xs))"

definition read_decimal :: "string \<Rightarrow> nat" where
  "read_decimal s = foldl (\<lambda>acc c. 10 * acc + digit_value c) 0 s"

definition read_time :: "string \<Rightarrow> nat option" where
  "read_time s =
     (case split_colon s of
        [m, sec] \<Rightarrow> Some (read_decimal m * 60 + read_decimal sec)
      | [h, m, sec] \<Rightarrow> Some (read_decimal h * 3600 + read_decimal m * 60 + read_decimal sec)
      | _ \<Rightarrow> None)"

text \<open>A numeral without padding: digits only, and no leading zero but for zero itself.\<close>

definition unpadded :: "string \<Rightarrow> bool" where
  "unpadded s = (s \<noteq> [] \<and> list_all is_digit s \<and> (s = ''0'' \<or> hd s \<noteq> CHR ''0''))"

definition two_digits :: "string \<Rightarrow> bool" where
  "two_digits s = (length s = 2 \<and> list_all is_digit s)"

section \<open>Sample data\<close>

definition sample_form :: formData where
  "sample_form =
     \<lparr>name = ''Ann'', participantId = ''42'', batch = ''B1'', category = [''writing''],
      taskDescription = ''Essay'', estimatedTime = ''30'', systemType = ''adaptive''\<rparr>"

definition sample_task :: obj where
  "sample_task =
     [(''name'', JStr ''Ann''), (''participantId'', JStr ''42''), (''batch'', JStr ''B1''),
      (''category'', JArr [JStr ''writing'']), (''taskDescription'', JStr ''Essay''),
      (''estimatedTime'', JStr ''30''), (''systemType'', JStr ''adaptive''),
      (''startTime'', JIso 1000)]"

definition sample_session :: TaskSession_state where
  "sample_session =
     \<lparr>taskData = Some sample_task, elapsedTime = Num 61, isEndingSession = False,
      timer = Some (Num 1000)\<rparr>"

definition sample_results :: TaskResults_state where
  "sample_results =
     \<lparr>taskData' = Some sample_task, uploadedFile = None, isSubmitting = False,
      nasaTlx = [(''mental'', ''3''), (''physical'', ''1''), (''temporal'', ''2''),
                 (''performance'', ''4''), (''effort'', ''3''), (''frustration'', ''1'')],
      likertResponses = [(''accuracy'', ''4''), (''effectiveness'', ''5''),
                         (''personalisation'', ''3'')]\<rparr>"

definition sample_world :: world where
  "sample_world =
     \<lparr>localStorage = [''currentTask'' \<mapsto> sample_task, ''theme'' \<mapsto> [(''mode'', JStr ''dark'')]],
      effects = []\<rparr>"

section \<open>Facts about decimal text and time arithmetic\<close>

declare nat_toString.simps [simp del]

lemma floor_div_eq: "floor_div a b = a div b"
  by (simp add: floor_div_def floor_divide_of_int_eq)

lemma below_ten:
  "(d::nat) < 10 \<Longrightarrow>
     d = 0 \<or> d = 1 \<or> d = 2 \<or> d = 3 \<or> d = 4 \<or> d = 5 \<or> d = 6 \<or> d = 7 \<or> d = 8 \<or> d = 9"
  by arith

lemma is_digit_digit_char: "d < 10 \<Longrightarrow> is_digit (digit_char d)"
  using below_ten [of d] by (auto simp: is_digit_def digit_char_def)

lemma digit_value_digit_char: "d < 10 \<Longrightarrow> digit_value (digit_char d) = d"
  using below_ten [of d] by (auto simp: digit_value_def digit_char_def)

lemma digit_char_zero_iff: "d < 10 \<Longrightarrow> digit_char d = CHR ''0'' \<longleftrightarrow> d = 0"
  using below_ten [of d] by (auto simp: digit_char_def)

lemma is_digit_not_colon: "is_digit c \<Longrightarrow> c \<noteq> CHR '':''"
  by (auto simp: is_digit_def)

lemma nat_toString_digits: "list_all is_digit (nat_toString n)"
  by (induction n rule: nat_toString.induct)
     (subst nat_toString.simps, simp add: is_digit_digit_char)

lemma nat_toString_nonempty: "nat_toString n \<noteq> []"
  by (subst nat_toString.simps) simp

lemma read_decimal_snoc: "read_decimal (s @ [c]) = 10 * read_decimal s + digit_value c"
  by (simp add: read_decimal_def)

lemma read_decimal_nat_toString: "read_decimal (nat_toString n) = n"
proof (induction n rule: nat_toString.induct)
  case (1 n)
  show ?case
  proof (cases "n < 10")
    case True
    then show ?thesis
      by (subst nat_toString.simps) (simp add: read_decimal_def digit_value_digit_char)
  next
    case False
    with 1 show ?thesis
      by (subst nat_toString.simps) (simp add: read_decimal_snoc digit_value_digit_char)
  qed
qed

lemma hd_nat_toString: "0 < n \<Longrightarrow> hd (nat_toString n) \<noteq> CHR ''0''"
proof (induction n rule: nat_toString.induct)
  case (1 n)
  show ?case
  proof (cases "n < 10")
    case True
    with 1(2) show ?thesis
      by (subst nat_toString.simps) (simp add: digit_char_zero_iff)
  next
    case False
    then have "0 < n div 10" by simp
    with 1(1) False have "hd (nat_toString (n div 10)) \<noteq> CHR ''0''" by simp
    with False show ?thesis
      by (subst nat_toString.simps) (simp add: nat_toString_nonempty)
  qed
qed

lemma nat_toString_0: "nat_toString 0 = ''0''"
  by (subst nat_toString.simps) (simp add: digit_char_def)

lemma unpadded_nat_toString: "unpadded (nat_toString n)"
  by (cases "n = 0") (simp_all add: unpadded_def nat_toString_0 is_digit_def nat_toString_digits nat_toString_nonempty hd_nat_toString)

lemma length_nat_toString_small: "n < 10 \<Longrightarrow> length (nat_toString n) = 1"
  by (subst nat_toString.simps) simp

lemma length_nat_toString_two: "10 \<le> n \<Longrightarrow> n < 100 \<Longrightarrow> length (nat_toString n) = 2"
  by (subst nat_toString.simps) (simp add: length_nat_toString_small)

lemma split_colon_plain: "CHR '':'' \<notin> set a \<Longrightarrow> split_colon a = [a]"
  by (induction a) auto

lemma split_colon_append:
  "CHR '':'' \<notin> set a \<Longrightarrow> split_colon (a @ CHR '':'' # rest) = a # split_colon rest"
  by (induction a) auto


lemma toString_int: "toString (int k) = nat_toString k"
  by (simp add: toString_def)

lemma floor_div_int: "floor_div (int a) (int b) = int (a div b)"
  by (simp add: floor_div_eq zdiv_int)

lemma js_rem_int: "js_rem (int a) (int b) = int (a mod b)"
  by (cases "a = 0") (simp_all add: js_rem_def zmod_int)

lemma formatTime_int:
  "formatTime (int n) =
     (if 0 < n div 3600
      then nat_toString (n div 3600) @ '':'' @ padStart 2 ''0'' (nat_toString (n mod 3600 div 60))
             @ '':'' @ padStart 2 ''0'' (nat_toString (n mod 60))
      else nat_toString (n mod 3600 div 60) @ '':'' @ padStart 2 ''0'' (nat_toString (n mod 60)))"
proof -
  have h: "floor_div (int n) 3600 = int (n div 3600)"
    using floor_div_int [of n 3600] by simp
  have r: "js_rem (int n) 3600 = int (n mod 3600)"
    using js_rem_int [of n 3600] by simp
  have m: "floor_div (int (n mod 3600)) 60 = int (n mod 3600 div 60)"
    using floor_div_int [of "n mod 3600" 60] by simp
  have s: "js_rem (int n) 60 = int (n mod 60)"
    using js_rem_int [of n 60] by simp
  show ?thesis
    by (simp add: formatTime_def h r m s toString_int Let_def)
qed

lemma padStart_two:
  "k < 100 \<Longrightarrow>
     padStart 2 ''0'' (nat_toString k) =
       (if k < 10 then CHR ''0'' # nat_toString k else nat_toString k)"
  by (cases "k < 10")
     (simp_all add: padStart_def length_nat_toString_small length_nat_toString_two)

lemma read_decimal_zero_Cons: "read_decimal (CHR ''0'' # s) = read_decimal s"
  by (simp add: read_decimal_def digit_value_def)

lemma two_digits_padStart: "k < 100 \<Longrightarrow> two_digits (padStart 2 ''0'' (nat_toString k))"
  by (cases "k < 10")
     (simp_all add: padStart_two two_digits_def length_nat_toString_small
        length_nat_toString_two nat_toString_digits is_digit_def)

lemma read_decimal_padStart: "k < 100 \<Longrightarrow> read_decimal (padStart 2 ''0'' (nat_toString k)) = k"
  by (simp add: padStart_two read_decimal_zero_Cons read_decimal_nat_toString)

lemma digits_no_colon: "list_all is_digit s \<Longrightarrow> CHR '':'' \<notin> set s"
  by (auto simp: list_all_iff dest: is_digit_not_colon)

lemma two_digits_no_colon: "two_digits s \<Longrightarrow> CHR '':'' \<notin> set s"
  by (simp add: two_digits_def digits_no_colon)

lemma unpadded_no_colon: "unpadded s \<Longrightarrow> CHR '':'' \<notin> set s"
  by (simp add: unpadded_def digits_no_colon)

lemma read_time_two:
  "CHR '':'' \<notin> set m \<Longrightarrow> CHR '':'' \<notin> set ss \<Longrightarrow>
     read_time (m @ '':'' @ ss) = Some (read_decimal m * 60 + read_decimal ss)"
  by (simp add: read_time_def split_colon_append split_colon_plain)

lemma read_time_three:
  "CHR '':'' \<notin> set h \<Longrightarrow> CHR '':'' \<notin> set m \<Longrightarrow> CHR '':'' \<notin> set ss \<Longrightarrow>
     read_time (h @ '':'' @ m @ '':'' @ ss) =
       Some (read_decimal h * 3600 + read_decimal m * 60 + read_decimal ss)"
  by (simp add: read_time_def split_colon_append split_colon_plain)

lemma minutes_bound: "(n::nat) mod 3600 div 60 < 100"
proof -
  have "n mod 3600 < 60 * 60" by simp
  then have "n mod 3600 div 60 < 60" by (simp only: less_mult_imp_div_less)
  then show ?thesis by simp
qed

lemma seconds_bound: "(n::nat) mod 60 < 100"
proof -
  have "n mod 60 < 60" by simp
  then show ?thesis by linarith
qed

lemma hms_recompose: "(n::nat) div 3600 * 3600 + n mod 3600 div 60 * 60 + n mod 60 = n"
proof -
  have "n mod 3600 mod 60 = n mod 60" by (simp add: mod_mod_cancel)
  then have "n mod 3600 div 60 * 60 + n mod 60 = n mod 3600"
    by (metis div_mult_mod_eq)
  then show ?thesis by (metis add.assoc div_mult_mod_eq)
qed

section \<open>Facts about the store, the trace and object literals\<close>

lemma localStorage_emit [simp]: "localStorage (emit e w) = localStorage w"
  by (simp add: emit_def)

lemma effects_emit [simp]: "effects (emit e w) = effects w @ [e]"
  by (simp add: emit_def)

lemma localStorage_setItem [simp]: "localStorage (setItem k v w) = (localStorage w)(k \<mapsto> v)"
  by (simp add: setItem_def)

lemma effects_setItem [simp]: "effects (setItem k v w) = effects w @ [SetItem k v]"
  by (simp add: setItem_def)

lemma localStorage_removeItem [simp]: "localStorage (removeItem k w) = (localStorage w)(k := None)"
  by (simp add: removeItem_def)

lemma effects_removeItem [simp]: "effects (removeItem k w) = effects w @ [RemoveItem k]"
  by (simp add: removeItem_def)

lemma navigations_emit [simp]:
  "navigations (emit e w) = navigations w @ (case e of Navigate p \<Rightarrow> [p] | _ \<Rightarrow> [])"
  by (simp add: navigations_def)

lemma navigations_setItem [simp]: "navigations (setItem k v w) = navigations w"
  by (simp add: navigations_def)

lemma navigations_removeItem [simp]: "navigations (removeItem k w) = navigations w"
  by (simp add: navigations_def)

lemma toasts_emit [simp]:
  "toasts (emit e w) = toasts w @ (case e of Toast t \<Rightarrow> [t] | _ \<Rightarrow> [])"
  by (simp add: toasts_def)

lemma toasts_setItem [simp]: "toasts (setItem k v w) = toasts w"
  by (simp add: toasts_def)

lemma toasts_removeItem [simp]: "toasts (removeItem k w) = toasts w"
  by (simp add: toasts_def)

lemma api_calls_emit [simp]:
  "api_calls (emit e w) = api_calls w @ (case e of ApiCall c \<Rightarrow> [c] | _ \<Rightarrow> [])"
  by (simp add: api_calls_def)

lemma api_calls_setItem [simp]: "api_calls (setItem k v w) = api_calls w"
  by (simp add: api_calls_def)

lemma api_calls_removeItem [simp]: "api_calls (removeItem k w) = api_calls w"
  by (simp add: api_calls_def)

lemma spread_Nil [simp]: "spread base [] = base"
  by (simp add: spread_def)

lemma spread_Cons [simp]: "spread base ((k, v) # fs) = spread (AList.update k v base) fs"
  by (simp add: spread_def)

lemma keys_update: "fst ` set (AList.update k v al) = insert k (fst ` set al)"
  by (simp add: dom_update)

lemma is_digit_iff: "is_digit c \<longleftrightarrow> c \<in> set ''0123456789''"
proof
  assume "is_digit c"
  then have "(of_char c :: nat) \<in> {48, 49, 50, 51, 52, 53, 54, 55, 56, 57}"
    unfolding is_digit_def by (simp; arith)
  also have "{48, 49, 50, 51, 52, 53, 54, 55, 56, 57} = (of_char ` set ''0123456789'' :: nat set)"
    by simp
  finally show "c \<in> set ''0123456789''"
    by (simp only: inj_image_mem_iff [OF inj_of_char])
next
  assume "c \<in> set ''0123456789''"
  then show "is_digit c" by (auto simp: is_digit_def)
qed

lemma digits_only_iff: "digits_only s \<longleftrightarrow> s \<noteq> [] \<and> set s \<subseteq> set ''0123456789''"
  unfolding digits_only_def list_all_iff is_digit_iff by blast

section \<open>Facts about the pages\<close>

lemma empty_answer_incomplete:
  "map_of xs k = Some [] \<Longrightarrow> \<not> list_all (\<lambda>v. v \<noteq> []) (map snd xs)"
proof -
  assume "map_of xs k = Some []"
  then have "(k, []) \<in> set xs" by (rule map_of_SomeD)
  then show ?thesis by (force simp: list_all_iff)
qed

lemma timer_tick [simp]: "timer (TaskSession_tick now st) = timer st"
  by (simp add: TaskSession_tick_def split: option.split number.split)

lemma taskData_tick [simp]: "taskData (TaskSession_tick now st) = taskData st"
  by (simp add: TaskSession_tick_def split: option.split number.split)

lemma isEndingSession_tick [simp]: "isEndingSession (TaskSession_tick now st) = isEndingSession st"
  by (simp add: TaskSession_tick_def split: option.split number.split)

lemma ticks_frame:
  "timer (TaskSession_ticks nows st) = timer st
   \<and> taskData (TaskSession_ticks nows st) = taskData st
   \<and> isEndingSession (TaskSession_ticks nows st) = isEndingSession st"
  unfolding TaskSession_ticks_def by (induction nows arbitrary: st) simp_all

lemma floor_div_floor: "floor_div a 1000 = \<lfloor>real_of_int a / 1000\<rfloor>"
  by (simp add: floor_div_def)

lemma ticks_snoc:
  "TaskSession_ticks (nows @ [now]) st = TaskSession_tick now (TaskSession_ticks nows st)"
  by (simp add: TaskSession_ticks_def)

lemma ticks_elapsed:
  assumes "timer st = Some (Num t0)"
  shows "elapsedTime (TaskSession_ticks nows st)
           = (if nows = [] then elapsedTime st
              else Num \<lfloor>real_of_int (last nows - t0) / 1000\<rfloor>)"
proof (cases nows rule: rev_cases)
  case Nil
  then show ?thesis by (simp add: TaskSession_ticks_def)
next
  case (snoc earlier now)
  have "timer (TaskSession_ticks earlier st) = Some (Num t0)"
    using assms ticks_frame [of earlier st] by simp
  then show ?thesis
    by (simp add: snoc ticks_snoc TaskSession_tick_def floor_div_floor)
qed

lemma TaskForm_accepts:
  assumes "\<not> fields_missing fd" and "digits_only (participantId fd)"
  shows "localStorage (TaskForm_handleSubmit fd t0 start w) ''currentTask''
           = Some (formData_json fd @ [(''startTime'', JIso t0)])"
  using assms
  by (cases start)
     (simp_all add: TaskForm_handleSubmit_def Let_def formData_json_def toISOString_def)

lemma form_task_extended:
  "spread (formData_json fd @ [(''startTime'', s)])
     [(''endTime'', e), (''actualDuration'', d), (''interventionsStopped'', i)]
   = (formData_json fd @ [(''startTime'', s)])
       @ [(''endTime'', e), (''actualDuration'', d), (''interventionsStopped'', i)]"
  by (simp add: formData_json_def)

lemma form_session_state:
  assumes "localStorage w1 ''currentTask'' = Some (formData_json fd @ [(''startTime'', JIso t0)])"
      and "s = TaskSession_ticks nows (fst (TaskSession_mount w1))"
  shows "taskData s = Some (formData_json fd @ [(''startTime'', JIso t0)])"
    and "\<not> isEndingSession s"
    and "elapsedTime s
           = Num (if nows = [] then 0 else \<lfloor>real_of_int (last nows - t0) / 1000\<rfloor>)"
proof -
  let ?task = "formData_json fd @ [(''startTime'', JIso t0)]"
  have start: "map_of ?task ''startTime'' = Some (JIso t0)"
    by (simp add: formData_json_def)
  have mount: "timer (fst (TaskSession_mount w1)) = Some (Num t0)"
    "taskData (fst (TaskSession_mount w1)) = Some ?task"
    "\<not> isEndingSession (fst (TaskSession_mount w1))"
    "elapsedTime (fst (TaskSession_mount w1)) = Num 0"
    using assms(1) start by (simp_all add: TaskSession_mount_def TaskSession_init_def)
  show "taskData s = Some ?task" "\<not> isEndingSession s"
    using mount ticks_frame [of nows "fst (TaskSession_mount w1)"] assms(2) by simp_all
  show "elapsedTime s
          = Num (if nows = [] then 0 else \<lfloor>real_of_int (last nows - t0) / 1000\<rfloor>)"
    using ticks_elapsed [OF mount(1), of nows] mount(4) assms(2) by simp
qed

lemma handleEndSession_resolved_record:
  fixes st :: TaskSession_state
  assumes "taskData st = Some td" and "\<not> isEndingSession st"
  shows "localStorage (snd (handleEndSession st now (Resolved stopResult) w)) ''completedTask''
           = Some (spread td
              [(''endTime'', toISOString now),
               (''actualDuration'', json_number (elapsedTime st)),
               (''interventionsStopped'',
                  JBool (map_of stopResult ''status'' = Some (JStr ''success'')))])"
  using assms by (simp add: handleEndSession_def Let_def)

lemma sample_form_ok: "\<not> fields_missing sample_form \<and> digits_only (participantId sample_form)"
  by (simp add: fields_missing_def digits_only_def is_digit_def sample_form_def)

lemma sample_results_ok:
  "nasaTlxComplete sample_results \<and> likertComplete sample_results
   \<and> taskData' sample_results = Some sample_task
   \<and> truthy (map_of sample_task ''participantId'')"
  by (simp add: nasaTlxComplete_def likertComplete_def sample_results_def sample_task_def)

lemma navigations_sample_world: "navigations sample_world = []"
  by (simp add: navigations_def sample_world_def)

lemma toasts_sample_world: "toasts sample_world = []"
  by (simp add: toasts_def sample_world_def)

section \<open>The claims\<close>

subsection \<open>C1: ending a session when the backend call fails\<close>

text \<open>
  Claim C1.  Whenever \<open>handleEndSession\<close> runs (a task is loaded and no other end is
  in progress) and \<open>apiService.stopInterventions\<close> rejects, the session is ended all
  the same: a \<open>completedTask\<close> record is stored that has every field of the current
  task, \<open>endTime\<close>, \<open>actualDuration\<close> equal to the elapsed time, \<open>interventionsStopped\<close>
  false and \<open>error\<close> "Failed to stop interventions", and the page navigates to
  \<open>/task-results\<close>.
\<close>

theorem handleEndSession_rejected:
  fixes st :: TaskSession_state
  assumes "taskData st = Some td" and "\<not> isEndingSession st"
  shows "\<exists>sessionData.
           localStorage (snd (handleEndSession st now (Rejected err) w)) ''completedTask''
             = Some sessionData
         \<and> fst ` set td \<subseteq> fst ` set sessionData
         \<and> (\<forall>k. k \<notin> {''endTime'', ''actualDuration'', ''interventionsStopped'', ''error''}
                \<longrightarrow> map_of sessionData k = map_of td k)
         \<and> map_of sessionData ''endTime'' = Some (toISOString now)
         \<and> map_of sessionData ''actualDuration'' = Some (json_number (elapsedTime st))
         \<and> map_of sessionData ''interventionsStopped'' = Some (JBool False)
         \<and> map_of sessionData ''error'' = Some (JStr ''Failed to stop interventions'')
         \<and> navigations (snd (handleEndSession st now (Rejected err) w))
             = navigations w @ [''/task-results'']"
proof -
  let ?rec = "spread td
     [(''endTime'', toISOString now),
      (''actualDuration'', json_number (elapsedTime st)),
      (''interventionsStopped'', JBool False),
      (''error'', JStr ''Failed to stop interventions'')]"
  have stored: "localStorage (snd (handleEndSession st now (Rejected err) w)) ''completedTask''
                  = Some ?rec"
    using assms by (simp add: handleEndSession_def Let_def)
  have nav: "navigations (snd (handleEndSession st now (Rejected err) w))
               = navigations w @ [''/task-results'']"
    using assms by (simp add: handleEndSession_def Let_def)
  have keys: "fst ` set td \<subseteq> fst ` set ?rec"
    by (auto simp: keys_update)
  have frame: "\<forall>k. k \<notin> {''endTime'', ''actualDuration'', ''interventionsStopped'', ''error''}
                \<longrightarrow> map_of ?rec k = map_of td k"
    by (simp add: update_conv')
  have vals: "map_of ?rec ''endTime'' = Some (toISOString now)"
    "map_of ?rec ''actualDuration'' = Some (json_number (elapsedTime st))"
    "map_of ?rec ''interventionsStopped'' = Some (JBool False)"
    "map_of ?rec ''error'' = Some (JStr ''Failed to stop interventions'')"
    by (simp_all add: update_conv')
  from stored nav keys frame vals show ?thesis by blast
qed

theorem handleEndSession_rejected_witness:
  "taskData sample_session = Some sample_task \<and> \<not> isEndingSession sample_session
   \<and> localStorage (snd (handleEndSession sample_session 62500 (Rejected ''Failed to fetch'')
         sample_world)) ''completedTask''
       = Some (sample_task @
           [(''endTime'', JIso 62500), (''actualDuration'', JNum 61),
            (''interventionsStopped'', JBool False),
            (''error'', JStr ''Failed to stop interventions'')])
   \<and> navigations (snd (handleEndSession sample_session 62500 (Rejected ''Failed to fetch'')
         sample_world)) = [''/task-results'']"
  using handleEndSession_rejected [of sample_session sample_task 62500 "''Failed to fetch''" sample_world]
  by (simp add: handleEndSession_def sample_session_def sample_task_def sample_world_def
        toISOString_def navigations_def Let_def)

subsection \<open>C2: the order of the pages\<close>

text \<open>
  Claim C2.  The handlers move through the three steps in order and never further:
  a task form that passes validation and whose backend call resolves navigates to
  \<open>/task-session\<close>, and the form navigates nowhere else; ending a session
  navigates to \<open>/task-results\<close> and nowhere else; an assessment that passes
  validation and is saved navigates to \<open>/\<close>, and the assessment page navigates
  nowhere else.
\<close>

theorem page_order:
  fixes ss :: TaskSession_state and rs :: TaskResults_state
  shows "(\<not> fields_missing fd \<and> digits_only (participantId fd)
            \<longrightarrow> navigations (TaskForm_handleSubmit fd t1 (Resolved r1) w1)
                  = navigations w1 @ [''/task-session''])
         \<and> (navigations (TaskForm_handleSubmit fd t1 start w1) = navigations w1
            \<or> navigations (TaskForm_handleSubmit fd t1 start w1)
                = navigations w1 @ [''/task-session''])
         \<and> (taskData ss \<noteq> None \<and> \<not> isEndingSession ss
            \<longrightarrow> navigations (snd (handleEndSession ss t2 stop w2))
                  = navigations w2 @ [''/task-results''])
         \<and> (navigations (snd (handleEndSession ss t2 stop w2)) = navigations w2
            \<or> navigations (snd (handleEndSession ss t2 stop w2))
                = navigations w2 @ [''/task-results''])
         \<and> (nasaTlxComplete rs \<and> likertComplete rs
              \<and> (\<exists>td. taskData' rs = Some td \<and> truthy (map_of td ''participantId''))
            \<longrightarrow> navigations (snd (TaskResults_handleSubmit rs t3 (Resolved r3) w3))
                  = navigations w3 @ [''/''])
         \<and> (navigations (snd (TaskResults_handleSubmit rs t3 save w3)) = navigations w3
            \<or> navigations (snd (TaskResults_handleSubmit rs t3 save w3))
                = navigations w3 @ [''/''])"
proof -
  have form: "navigations (TaskForm_handleSubmit fd t1 start w1)
      = (if \<not> fields_missing fd \<and> digits_only (participantId fd)
            \<and> (\<exists>r. start = Resolved r)
         then navigations w1 @ [''/task-session''] else navigations w1)" for start
    by (cases start) (simp_all add: TaskForm_handleSubmit_def Let_def)
  have session: "navigations (snd (handleEndSession ss t2 stop w2))
      = (if taskData ss \<noteq> None \<and> \<not> isEndingSession ss
         then navigations w2 @ [''/task-results''] else navigations w2)"
    by (cases stop; cases "taskData ss") (simp_all add: handleEndSession_def Let_def)
  have results: "navigations (snd (TaskResults_handleSubmit rs t3 save w3))
      = (if nasaTlxComplete rs \<and> likertComplete rs
            \<and> (\<exists>td. taskData' rs = Some td \<and> truthy (map_of td ''participantId''))
            \<and> (\<exists>r. save = Resolved r)
         then navigations w3 @ [''/''] else navigations w3)" for save
    by (cases save; cases "taskData' rs") (simp_all add: TaskResults_handleSubmit_def Let_def)
  show ?thesis
    unfolding form session results by simp
qed

theorem page_order_witness:
  "\<not> fields_missing sample_form \<and> digits_only (participantId sample_form)
   \<and> navigations (TaskForm_handleSubmit sample_form 1000
        (Resolved [(''interventionsStarted'', JBool True)]) sample_world) = [''/task-session'']
   \<and> taskData sample_session \<noteq> None \<and> \<not> isEndingSession sample_session
   \<and> navigations (snd (handleEndSession sample_session 62500
        (Resolved [(''status'', JStr ''success'')]) sample_world)) = [''/task-results'']
   \<and> nasaTlxComplete sample_results \<and> likertComplete sample_results
   \<and> navigations (snd (TaskResults_handleSubmit sample_results 70000
        (Resolved [(''isNewFile'', JBool True)]) sample_world)) = [''/'']"
proof -
  have session: "taskData sample_session \<noteq> None" "\<not> isEndingSession sample_session"
    by (simp_all add: sample_session_def)
  from page_order [where fd = sample_form and ?t1.0 = 1000
      and ?r1.0 = "[(''interventionsStarted'', JBool True)]" and ?w1.0 = sample_world
      and ss = sample_session and ?t2.0 = 62500
      and stop = "Resolved [(''status'', JStr ''success'')]" and ?w2.0 = sample_world
      and rs = sample_results and ?t3.0 = 70000 and ?r3.0 = "[(''isNewFile'', JBool True)]"
      and ?w3.0 = sample_world]
  show ?thesis
    using sample_form_ok sample_results_ok session by (simp add: navigations_sample_world)
qed

subsection \<open>C3: the record of a session whose backend call succeeds\<close>

text \<open>
  Claim C3.  The current task of a session is the record that the task form stored
  under \<open>currentTask\<close>.  When \<open>apiService.stopInterventions\<close> resolves during
  \<open>handleEndSession\<close>, whatever firings of the interval came before, the
  \<open>completedTask\<close> record written to the store is that task extended with \<open>endTime\<close>,
  \<open>actualDuration\<close> equal to \<open>elapsedTime\<close> and \<open>interventionsStopped\<close>, which is true
  if and only if the returned \<open>status\<close> is "success"; every field of the task is in
  the record with its value unchanged.
\<close>

theorem handleEndSession_resolved:
  assumes "\<not> fields_missing fd" and "digits_only (participantId fd)"
      and "localStorage w1 ''currentTask''
             = localStorage (TaskForm_handleSubmit fd t0 start w) ''currentTask''"
      and "s = TaskSession_ticks nows (fst (TaskSession_mount w1))"
  shows "\<exists>task e sessionData.
           taskData s = Some task \<and> elapsedTime s = Num e
         \<and> localStorage (snd (handleEndSession s now (Resolved stopResult) w2)) ''completedTask''
             = Some sessionData
         \<and> sessionData = task @
              [(''endTime'', toISOString now),
               (''actualDuration'', JNum e),
               (''interventionsStopped'',
                  JBool (map_of stopResult ''status'' = Some (JStr ''success'')))]
         \<and> map_of sessionData ''endTime'' = Some (toISOString now)
         \<and> map_of sessionData ''actualDuration'' = Some (JNum e)
         \<and> (map_of sessionData ''interventionsStopped'' = Some (JBool True)
              \<longleftrightarrow> map_of stopResult ''status'' = Some (JStr ''success''))
         \<and> (map_of sessionData ''interventionsStopped'' = Some (JBool False)
              \<longleftrightarrow> map_of stopResult ''status'' \<noteq> Some (JStr ''success''))
         \<and> (\<forall>k v. map_of task k = Some v \<longrightarrow> map_of sessionData k = Some v)"
proof -
  let ?task = "formData_json fd @ [(''startTime'', JIso t0)]"
  let ?e = "if nows = [] then 0 else \<lfloor>real_of_int (last nows - t0) / 1000\<rfloor>"
  let ?ok = "map_of stopResult ''status'' = Some (JStr ''success'')"
  let ?rec = "?task @ [(''endTime'', toISOString now), (''actualDuration'', JNum ?e),
                       (''interventionsStopped'', JBool ?ok)]"
  have stored1: "localStorage w1 ''currentTask'' = Some ?task"
    using assms(3) TaskForm_accepts [OF assms(1,2)] by simp
  note s = form_session_state [OF stored1 assms(4)]
  have "localStorage (snd (handleEndSession s now (Resolved stopResult) w2)) ''completedTask''
          = Some (spread ?task
              [(''endTime'', toISOString now),
               (''actualDuration'', json_number (elapsedTime s)),
               (''interventionsStopped'', JBool ?ok)])"
    using s(1,2) by (rule handleEndSession_resolved_record)
  then have stored: "localStorage (snd (handleEndSession s now (Resolved stopResult) w2))
                       ''completedTask'' = Some ?rec"
    by (simp only: s(3) json_number.simps form_task_extended)
  have vals: "map_of ?rec ''endTime'' = Some (toISOString now)"
    "map_of ?rec ''actualDuration'' = Some (JNum ?e)"
    "map_of ?rec ''interventionsStopped'' = Some (JBool ?ok)"
    by (simp_all add: formData_json_def)
  have kept: "\<forall>k v. map_of ?task k = Some v \<longrightarrow> map_of ?rec k = Some v"
    by (simp add: map_add_Some_iff)
  have flag: "map_of ?rec ''interventionsStopped'' = Some (JBool True) \<longleftrightarrow> ?ok"
    "map_of ?rec ''interventionsStopped'' = Some (JBool False) \<longleftrightarrow> \<not> ?ok"
    using vals(3) by simp_all
  from s(1) s(3) stored vals(1,2) flag kept show ?thesis by blast
qed

theorem handleEndSession_resolved_witness:
  "\<not> fields_missing sample_form \<and> digits_only (participantId sample_form)
   \<and> localStorage (snd (handleEndSession
        (TaskSession_ticks [2000, 62999]
          (fst (TaskSession_mount (TaskForm_handleSubmit sample_form 1000
             (Resolved [(''interventionsStarted'', JBool True)]) sample_world))))
        63500 (Resolved [(''status'', JStr ''success''), (''message'', JStr ''stopped'')])
        sample_world)) ''completedTask''
       = Some (sample_task @
           [(''endTime'', JIso 63500), (''actualDuration'', JNum 61),
            (''interventionsStopped'', JBool True)])"
proof -
  let ?w1 = "TaskForm_handleSubmit sample_form 1000
               (Resolved [(''interventionsStarted'', JBool True)]) sample_world"
  let ?s = "TaskSession_ticks [2000, 62999] (fst (TaskSession_mount ?w1))"
  have ok: "\<not> fields_missing sample_form" "digits_only (participantId sample_form)"
    using sample_form_ok by simp_all
  have written: "localStorage ?w1 ''currentTask''
      = Some (formData_json sample_form @ [(''startTime'', JIso 1000)])"
    using ok by (rule TaskForm_accepts)
  have task: "taskData ?s = Some sample_task"
    using form_session_state(1) [OF written refl, of "[2000, 62999]"]
    by (simp add: formData_json_def sample_form_def sample_task_def)
  have f: "\<lfloor>real_of_int (62999 - 1000) / 1000\<rfloor> = (61::int)"
    by (simp add: floor_divide_of_int_eq [of 61999 1000, simplified])
  have elapsed: "elapsedTime ?s = Num 61"
    using form_session_state(3) [OF written refl, of "[2000, 62999]"] f by simp
  from handleEndSession_resolved [OF ok refl refl, where nows = "[2000, 62999]"
      and ?t0.0 = 1000 and start = "Resolved [(''interventionsStarted'', JBool True)]"
      and w = sample_world and now = 63500
      and stopResult = "[(''status'', JStr ''success''), (''message'', JStr ''stopped'')]"
      and ?w2.0 = sample_world]
  show ?thesis using ok task elapsed by (auto simp: toISOString_def)
qed

subsection \<open>C4: validation of the task form\<close>

text \<open>
  Claim C4.  When \<open>name\<close>, \<open>participantId\<close>, \<open>batch\<close>, \<open>taskDescription\<close>,
  \<open>estimatedTime\<close> or \<open>systemType\<close> is empty, or no category is chosen, or
  \<open>participantId\<close> is not a non-empty run of decimal digits, \<open>handleSubmit\<close> of the
  task form shows one destructive toast and does nothing else: \<open>localStorage\<close> is as
  before (no \<open>currentTask\<close> is written), the backend is not called and the page
  does not navigate.
\<close>

theorem TaskForm_invalid_rejected:
  assumes "name fd = [] \<or> participantId fd = [] \<or> batch fd = [] \<or> taskDescription fd = []
           \<or> estimatedTime fd = [] \<or> systemType fd = [] \<or> category fd = []
           \<or> \<not> (participantId fd \<noteq> [] \<and> set (participantId fd) \<subseteq> set ''0123456789'')"
  shows "(\<exists>t. effects (TaskForm_handleSubmit fd now start w) = effects w @ [Toast t]
              \<and> variant t = Destructive)
         \<and> localStorage (TaskForm_handleSubmit fd now start w) = localStorage w
         \<and> api_calls (TaskForm_handleSubmit fd now start w) = api_calls w
         \<and> navigations (TaskForm_handleSubmit fd now start w) = navigations w"
proof (cases "fields_missing fd")
  case True
  then show ?thesis by (simp add: TaskForm_handleSubmit_def)
next
  case False
  with assms have "\<not> digits_only (participantId fd)"
    by (auto simp: fields_missing_def digits_only_iff)
  with False show ?thesis by (simp add: TaskForm_handleSubmit_def)
qed

theorem TaskForm_invalid_rejected_witness:
  "\<not> (participantId (sample_form\<lparr>participantId := ''4a2''\<rparr>) \<noteq> []
        \<and> set (participantId (sample_form\<lparr>participantId := ''4a2''\<rparr>)) \<subseteq> set ''0123456789'')
   \<and> effects (TaskForm_handleSubmit (sample_form\<lparr>participantId := ''4a2''\<rparr>) 1000
         (Resolved [(''interventionsStarted'', JBool True)]) sample_world)
       = [Toast \<lparr>title = ''Invalid Participant ID'',
                 description = [Lit ''Participant ID must be a number''],
                 variant = Destructive\<rparr>]
   \<and> category (sample_form\<lparr>category := []\<rparr>) = []
   \<and> effects (TaskForm_handleSubmit (sample_form\<lparr>category := []\<rparr>) 1000
         (Resolved [(''interventionsStarted'', JBool True)]) sample_world)
       = [Toast \<lparr>title = ''Please fill in all fields'', description = [],
                 variant = Destructive\<rparr>]
   \<and> localStorage (TaskForm_handleSubmit (sample_form\<lparr>category := []\<rparr>) 1000
         (Resolved [(''interventionsStarted'', JBool True)]) sample_world)
       = localStorage sample_world"
  using TaskForm_invalid_rejected [of "sample_form\<lparr>participantId := ''4a2''\<rparr>" 1000
      "Resolved [(''interventionsStarted'', JBool True)]" sample_world]
    TaskForm_invalid_rejected [of "sample_form\<lparr>category := []\<rparr>" 1000
      "Resolved [(''interventionsStarted'', JBool True)]" sample_world]
  by (simp add: TaskForm_handleSubmit_def fields_missing_def digits_only_def is_digit_def
        sample_form_def sample_world_def)

subsection \<open>C5: validation of the assessment\<close>

text \<open>
  Claim C5.  When one of the six NASA TLX answers or one of the three Likert
  answers is the empty string, or the completed task has no (truthy)
  \<open>participantId\<close>, \<open>handleSubmit\<close> of the assessment page shows one destructive
  toast and does nothing else: \<open>saveAssessment\<close> is not called, \<open>localStorage\<close> is as
  before, the page does not navigate and the component state is unchanged.
\<close>

theorem TaskResults_incomplete_rejected:
  fixes st :: TaskResults_state
  assumes "(k \<in> {''mental'', ''physical'', ''temporal'', ''performance'', ''effort'', ''frustration''}
              \<and> map_of (nasaTlx st) k = Some [])
           \<or> (k \<in> {''accuracy'', ''effectiveness'', ''personalisation''}
              \<and> map_of (likertResponses st) k = Some [])
           \<or> taskData' st = None
           \<or> (\<exists>td. taskData' st = Some td \<and> \<not> truthy (map_of td ''participantId''))"
  shows "(\<exists>t. effects (snd (TaskResults_handleSubmit st now save w)) = effects w @ [Toast t]
              \<and> variant t = Destructive)
         \<and> localStorage (snd (TaskResults_handleSubmit st now save w)) = localStorage w
         \<and> api_calls (snd (TaskResults_handleSubmit st now save w)) = api_calls w
         \<and> navigations (snd (TaskResults_handleSubmit st now save w)) = navigations w
         \<and> fst (TaskResults_handleSubmit st now save w) = st"
proof (cases "nasaTlxComplete st \<and> likertComplete st")
  case False
  then show ?thesis by (auto simp: TaskResults_handleSubmit_def)
next
  case True
  with assms have "taskData' st = None
      \<or> (\<exists>td. taskData' st = Some td \<and> \<not> truthy (map_of td ''participantId''))"
    by (auto simp: nasaTlxComplete_def likertComplete_def dest: empty_answer_incomplete)
  with True show ?thesis
    by (auto simp: TaskResults_handleSubmit_def participant_missing_toast_def)
qed

theorem TaskResults_incomplete_rejected_witness:
  "map_of (nasaTlx (handleNasaTlxChange ''effort'' [] sample_results)) ''effort'' = Some []
   \<and> effects (snd (TaskResults_handleSubmit (handleNasaTlxChange ''effort'' [] sample_results)
        2000 (Resolved [(''isNewFile'', JBool True)]) sample_world))
       = [Toast \<lparr>title = ''Please complete all assessment forms'', description = [],
                 variant = Destructive\<rparr>]
   \<and> \<not> truthy (map_of [(''name'', JStr ''Ann'')] ''participantId'')
   \<and> effects (snd (TaskResults_handleSubmit
        (sample_results\<lparr>taskData' := Some [(''name'', JStr ''Ann'')]\<rparr>)
        2000 (Resolved [(''isNewFile'', JBool True)]) sample_world))
       = [Toast participant_missing_toast]
   \<and> localStorage (snd (TaskResults_handleSubmit
        (sample_results\<lparr>taskData' := Some [(''name'', JStr ''Ann'')]\<rparr>)
        2000 (Resolved [(''isNewFile'', JBool True)]) sample_world))
       = localStorage sample_world"
  using TaskResults_incomplete_rejected [of "''effort''"
      "handleNasaTlxChange ''effort'' [] sample_results" 2000
      "Resolved [(''isNewFile'', JBool True)]" sample_world]
    TaskResults_incomplete_rejected [of "''effort''"
      "sample_results\<lparr>taskData' := Some [(''name'', JStr ''Ann'')]\<rparr>" 2000
      "Resolved [(''isNewFile'', JBool True)]" sample_world]
  by (simp add: TaskResults_handleSubmit_def handleNasaTlxChange_def nasaTlxComplete_def
        likertComplete_def sample_results_def sample_world_def sample_task_def)

subsection \<open>C6: a failed save of the assessment\<close>

text \<open>
  Claim C6.  When \<open>handleSubmit\<close> of the assessment page calls
  \<open>apiService.saveAssessment\<close> and the call rejects, \<open>localStorage\<close> is left as it
  was, the page does not navigate, a destructive toast is shown and \<open>isSubmitting\<close>
  is false again with the answers untouched, so that submitting once more, with a
  call that resolves, completes the assessment.
\<close>

theorem assessment_failure_atomic:
  fixes st :: TaskResults_state
  assumes "nasaTlxComplete st" and "likertComplete st"
      and "taskData' st = Some td" and "truthy (map_of td ''participantId'')"
  shows "(\<exists>t. effects (snd (TaskResults_handleSubmit st now (Rejected message) w))
                = effects w @ [ApiCall (SaveAssessment (assessmentData st td now)),
                               ConsoleError ''Failed to save assessment:'', Toast t]
              \<and> variant t = Destructive)
         \<and> localStorage (snd (TaskResults_handleSubmit st now (Rejected message) w))
             = localStorage w
         \<and> navigations (snd (TaskResults_handleSubmit st now (Rejected message) w))
             = navigations w
         \<and> fst (TaskResults_handleSubmit st now (Rejected message) w)
             = st\<lparr>isSubmitting := False\<rparr>
         \<and> navigations (snd (TaskResults_handleSubmit
               (fst (TaskResults_handleSubmit st now (Rejected message) w)) later
               (Resolved result)
               (snd (TaskResults_handleSubmit st now (Rejected message) w))))
             = navigations w @ [''/'']"
  using assms
  by (simp add: TaskResults_handleSubmit_def Let_def nasaTlxComplete_def likertComplete_def)

theorem assessment_failure_atomic_witness:
  "nasaTlxComplete sample_results \<and> likertComplete sample_results
   \<and> taskData' sample_results = Some sample_task
   \<and> truthy (map_of sample_task ''participantId'')
   \<and> localStorage (snd (TaskResults_handleSubmit sample_results 70000
        (Rejected ''Failed to save assessment'') sample_world)) = localStorage sample_world
   \<and> navigations (snd (TaskResults_handleSubmit sample_results 70000
        (Rejected ''Failed to save assessment'') sample_world)) = []
   \<and> toasts (snd (TaskResults_handleSubmit sample_results 70000
        (Rejected ''Failed to save assessment'') sample_world))
       = [\<lparr>title = ''Failed to save assessment'',
           description = [Lit ''Failed to save assessment''], variant = Destructive\<rparr>]
   \<and> isSubmitting (fst (TaskResults_handleSubmit sample_results 70000
        (Rejected ''Failed to save assessment'') sample_world)) = False"
proof -
  have shown: "toasts (snd (TaskResults_handleSubmit sample_results 70000
        (Rejected ''Failed to save assessment'') sample_world))
       = [\<lparr>title = ''Failed to save assessment'',
           description = [Lit ''Failed to save assessment''], variant = Destructive\<rparr>]"
    using sample_results_ok
    by (simp add: TaskResults_handleSubmit_def Let_def toasts_sample_world)
  from assessment_failure_atomic [of sample_results sample_task 70000
      "''Failed to save assessment''" sample_world 71000 "[]"]
  show ?thesis
    using sample_results_ok shown by (simp add: navigations_sample_world)
qed

subsection \<open>C7: the session keys of the store\<close>

text \<open>
  Claim C7.  A saved assessment changes the store at three keys only:
  \<open>sessionResults\<close> holds the assessment data, \<open>currentTask\<close> and \<open>completedTask\<close> are
  removed.  On the feedback page \<open>handleFeedbackClick\<close> removes \<open>currentTask\<close> and
  \<open>completedTask\<close>, then opens the form and navigates home.  Neither task key is
  left after a completed session.
\<close>

theorem session_keys_cleared:
  fixes st :: TaskResults_state
  assumes "nasaTlxComplete st" and "likertComplete st"
      and "taskData' st = Some td" and "truthy (map_of td ''participantId'')"
  shows "localStorage (snd (TaskResults_handleSubmit st now (Resolved result) w))
           = (localStorage w)(''sessionResults'' \<mapsto> assessmentData st td now,
                ''currentTask'' := None, ''completedTask'' := None)
         \<and> (\<forall>k. k \<notin> {''sessionResults'', ''currentTask'', ''completedTask''}
              \<longrightarrow> localStorage (snd (TaskResults_handleSubmit st now (Resolved result) w)) k
                    = localStorage w k)
         \<and> localStorage (snd (TaskResults_handleSubmit st now (Resolved result) w))
               ''currentTask'' = None
         \<and> localStorage (snd (TaskResults_handleSubmit st now (Resolved result) w))
               ''completedTask'' = None
         \<and> localStorage (handleFeedbackClick w')
             = (localStorage w')(''currentTask'' := None, ''completedTask'' := None)
         \<and> effects (handleFeedbackClick w')
             = effects w' @ [RemoveItem ''currentTask'', RemoveItem ''completedTask'',
                             WindowOpen feedback_form_url, Navigate ''/'']"
  using assms
  by (simp add: TaskResults_handleSubmit_def handleFeedbackClick_def Let_def)

theorem session_keys_cleared_witness:
  "nasaTlxComplete sample_results \<and> likertComplete sample_results
   \<and> taskData' sample_results = Some sample_task
   \<and> truthy (map_of sample_task ''participantId'')
   \<and> localStorage (snd (TaskResults_handleSubmit sample_results 70000
        (Resolved [(''isNewFile'', JBool True)])
        (sample_world\<lparr>localStorage := (localStorage sample_world)(''completedTask'' \<mapsto> sample_task)\<rparr>)))
       = [''theme'' \<mapsto> [(''mode'', JStr ''dark'')],
          ''sessionResults'' \<mapsto> assessmentData sample_results sample_task 70000]
   \<and> localStorage (handleFeedbackClick
        (sample_world\<lparr>localStorage := (localStorage sample_world)(''completedTask'' \<mapsto> sample_task)\<rparr>))
       = [''theme'' \<mapsto> [(''mode'', JStr ''dark'')]]"
  using session_keys_cleared [of sample_results sample_task 70000
      "[(''isNewFile'', JBool True)]"
      "sample_world\<lparr>localStorage := (localStorage sample_world)(''completedTask'' \<mapsto> sample_task)\<rparr>"
      "sample_world\<lparr>localStorage := (localStorage sample_world)(''completedTask'' \<mapsto> sample_task)\<rparr>"]
    sample_results_ok
  by (auto simp: sample_world_def fun_eq_iff)

subsection \<open>C8: the session timer\<close>

text \<open>
  Claim C8.  The task form stores the instant of its submission as \<open>startTime\<close> of
  \<open>currentTask\<close>.  In the session mounted on that record, whatever firings of the
  interval came before, a firing at the instant \<open>now\<close> sets \<open>elapsedTime\<close> to
  \<open>floor((now - startTime) / 1000)\<close>; so \<open>elapsedTime\<close> is this floor for the last
  firing, or still 0 before the first one.  Ending the session records as
  \<open>actualDuration\<close> the value \<open>elapsedTime\<close> has at that moment.
\<close>

theorem session_timer:
  assumes "\<not> fields_missing fd" and "digits_only (participantId fd)"
      and "s = TaskSession_ticks nows (fst (TaskSession_mount (TaskForm_handleSubmit fd t0 start w)))"
  shows "(\<exists>task. localStorage (TaskForm_handleSubmit fd t0 start w) ''currentTask'' = Some task
             \<and> map_of task ''startTime'' = Some (toISOString t0))
         \<and> elapsedTime (TaskSession_tick now s) = Num \<lfloor>real_of_int (now - t0) / 1000\<rfloor>
         \<and> elapsedTime s
             = Num (if nows = [] then 0 else \<lfloor>real_of_int (last nows - t0) / 1000\<rfloor>)
         \<and> (\<exists>sessionData.
               localStorage (snd (handleEndSession s tEnd stop w')) ''completedTask''
                 = Some sessionData
               \<and> map_of sessionData ''actualDuration'' = Some (json_number (elapsedTime s)))"
proof -
  let ?w1 = "TaskForm_handleSubmit fd t0 start w"
  let ?task = "formData_json fd @ [(''startTime'', JIso t0)]"
  have stored: "localStorage ?w1 ''currentTask'' = Some ?task"
    using assms(1,2) by (rule TaskForm_accepts)
  have start: "map_of ?task ''startTime'' = Some (toISOString t0)"
    by (simp add: formData_json_def toISOString_def)
  have mount: "timer (fst (TaskSession_mount ?w1)) = Some (Num t0)"
    "taskData (fst (TaskSession_mount ?w1)) = Some ?task"
    "\<not> isEndingSession (fst (TaskSession_mount ?w1))"
    "elapsedTime (fst (TaskSession_mount ?w1)) = Num 0"
    using stored start
    by (simp_all add: TaskSession_mount_def TaskSession_init_def toISOString_def)
  have s: "timer s = Some (Num t0)" "taskData s = Some ?task" "\<not> isEndingSession s"
    using mount ticks_frame [of nows "fst (TaskSession_mount ?w1)"] assms(3) by simp_all
  have tick: "elapsedTime (TaskSession_tick now s) = Num \<lfloor>real_of_int (now - t0) / 1000\<rfloor>"
    using s(1) by (simp add: TaskSession_tick_def floor_div_floor)
  have elapsed: "elapsedTime s
      = Num (if nows = [] then 0 else \<lfloor>real_of_int (last nows - t0) / 1000\<rfloor>)"
    using ticks_elapsed [OF mount(1), of nows] mount(4) assms(3) by simp
  have ended: "\<exists>sessionData.
          localStorage (snd (handleEndSession s tEnd stop w')) ''completedTask''
            = Some sessionData
          \<and> map_of sessionData ''actualDuration'' = Some (json_number (elapsedTime s))"
    using s(2,3)
    by (cases stop) (simp_all add: handleEndSession_def Let_def update_conv')
  from stored start tick elapsed ended show ?thesis by blast
qed

theorem session_timer_witness:
  "\<not> fields_missing sample_form \<and> digits_only (participantId sample_form)
   \<and> elapsedTime (TaskSession_tick 62999
        (TaskSession_ticks [2000, 3001]
          (fst (TaskSession_mount (TaskForm_handleSubmit sample_form 1000
             (Resolved [(''interventionsStarted'', JBool True)]) sample_world)))))
       = Num 61
   \<and> elapsedTime (TaskSession_ticks [2000, 3001]
          (fst (TaskSession_mount (TaskForm_handleSubmit sample_form 1000
             (Resolved [(''interventionsStarted'', JBool True)]) sample_world))))
       = Num 2
   \<and> map_of (the (localStorage (snd (handleEndSession
        (TaskSession_ticks [2000, 3001]
            (fst (TaskSession_mount (TaskForm_handleSubmit sample_form 1000
               (Resolved [(''interventionsStarted'', JBool True)]) sample_world))))
        3500 (Rejected ''Failed to fetch'') sample_world)) ''completedTask''))
        ''actualDuration'' = Some (JNum 2)"
proof -
  have ok: "\<not> fields_missing sample_form" "digits_only (participantId sample_form)"
    using sample_form_ok by simp_all
  have f: "\<lfloor>real_of_int (62999 - 1000) / 1000\<rfloor> = (61::int)"
    by (simp add: floor_divide_of_int_eq [of 61999 1000, simplified])
  have g: "\<lfloor>real_of_int (3001 - 1000) / 1000\<rfloor> = (2::int)"
    by (simp add: floor_divide_of_int_eq [of 2001 1000, simplified])
  from session_timer [where fd = sample_form and nows = "[2000, 3001]" and ?t0.0 = 1000
      and start = "Resolved [(''interventionsStarted'', JBool True)]" and w = sample_world
      and now = 62999 and tEnd = 3500 and stop = "Rejected ''Failed to fetch''"
      and w' = sample_world, OF ok refl]
  show ?thesis using ok f g by auto
qed

subsection \<open>C9: rendering of the elapsed time\<close>

text \<open>
  Claim C9.  For every natural number \<open>n\<close> of seconds, \<open>formatTime\<close> renders
  \<open>M:SS\<close> when \<open>n < 3600\<close> and \<open>H:MM:SS\<close> otherwise: the leading component is an
  unpadded decimal numeral, every later component has exactly two digits, the
  components are the hours, minutes and seconds of \<open>n\<close>, and reading the text back
  as hours, minutes and seconds gives \<open>n\<close> again.
\<close>

theorem formatTime_round_trip:
  "(n < 3600 \<longrightarrow>
      (\<exists>m ss. formatTime (int n) = m @ '':'' @ ss \<and> unpadded m \<and> two_digits ss
         \<and> read_decimal m = n div 60 \<and> read_decimal ss = n mod 60))
   \<and> (3600 \<le> n \<longrightarrow>
      (\<exists>h mm ss. formatTime (int n) = h @ '':'' @ mm @ '':'' @ ss
         \<and> unpadded h \<and> two_digits mm \<and> two_digits ss
         \<and> read_decimal h = n div 3600 \<and> read_decimal mm = n mod 3600 div 60
         \<and> read_decimal ss = n mod 60))
   \<and> read_time (formatTime (int n)) = Some n"
proof -
  let ?h = "nat_toString (n div 3600)"
  let ?m = "nat_toString (n mod 3600 div 60)"
  let ?mm = "padStart 2 ''0'' (nat_toString (n mod 3600 div 60))"
  let ?ss = "padStart 2 ''0'' (nat_toString (n mod 60))"
  have m60: "n mod 3600 div 60 < 100" and s60: "n mod 60 < 100"
    by (rule minutes_bound, rule seconds_bound)
  have ss: "two_digits ?ss" "read_decimal ?ss = n mod 60"
    using s60 by (simp_all add: two_digits_padStart read_decimal_padStart)
  have mm: "two_digits ?mm" "read_decimal ?mm = n mod 3600 div 60"
    using m60 by (simp_all add: two_digits_padStart read_decimal_padStart)
  show ?thesis
  proof (cases "n < 3600")
    case True
    then have f: "formatTime (int n) = ?m @ '':'' @ ?ss"
      by (simp add: formatTime_int)
    from True have md: "n mod 3600 div 60 = n div 60" by simp
    have rc: "n div 60 * 60 + n mod 60 = n" by simp
    have "read_time (?m @ '':'' @ ?ss) = Some (read_decimal ?m * 60 + read_decimal ?ss)"
      by (rule read_time_two) (simp_all add: unpadded_no_colon unpadded_nat_toString
            two_digits_no_colon ss)
    then have rt: "read_time (formatTime (int n)) = Some n"
      using rc by (simp add: f ss read_decimal_nat_toString md)
    have "\<exists>m ss. formatTime (int n) = m @ '':'' @ ss \<and> unpadded m \<and> two_digits ss
         \<and> read_decimal m = n div 60 \<and> read_decimal ss = n mod 60"
      using f ss unpadded_nat_toString [of "n mod 3600 div 60"]
        read_decimal_nat_toString [of "n mod 3600 div 60"] md by metis
    with True rt show ?thesis by simp
  next
    case False
    then have f: "formatTime (int n) = ?h @ '':'' @ ?mm @ '':'' @ ?ss"
      by (simp add: formatTime_int)
    have "read_time (?h @ '':'' @ ?mm @ '':'' @ ?ss) =
            Some (read_decimal ?h * 3600 + read_decimal ?mm * 60 + read_decimal ?ss)"
      by (rule read_time_three) (simp_all add: unpadded_no_colon unpadded_nat_toString
            two_digits_no_colon ss mm)
    moreover have "n div 3600 * 3600 + n mod 3600 div 60 * 60 + n mod 60 = n"
      by (rule hms_recompose)
    ultimately have rt: "read_time (formatTime (int n)) = Some n"
      by (simp add: f ss mm read_decimal_nat_toString)
    have "\<exists>h mm ss. formatTime (int n) = h @ '':'' @ mm @ '':'' @ ss
         \<and> unpadded h \<and> two_digits mm \<and> two_digits ss
         \<and> read_decimal h = n div 3600 \<and> read_decimal mm = n mod 3600 div 60
         \<and> read_decimal ss = n mod 60"
      using f ss mm unpadded_nat_toString [of "n div 3600"]
        read_decimal_nat_toString [of "n div 3600"] by blast
    with False rt show ?thesis by simp
  qed
qed


theorem formatTime_round_trip_witness:
  "formatTime (int 3725) = ''1:02:05'' \<and> read_time (formatTime (int 3725)) = Some 3725
   \<and> formatTime (int 65) = ''1:05'' \<and> read_time (formatTime (int 65)) = Some 65"
  using formatTime_round_trip [of 3725] formatTime_round_trip [of 65]
  by (simp add: formatTime_def floor_div_eq js_rem_def toString_def nat_toString.simps padStart_def digit_char_def Let_def)

subsection \<open>C10: the guards of the pages\<close>

text \<open>
  Claim C10.  On mount, the session page redirects to \<open>/task-form\<close> when the store
  has no \<open>currentTask\<close>, and both variants of the results page redirect to \<open>/\<close> when
  it has no \<open>completedTask\<close>; in each case the page shows its loading view.  A page
  shows the content of a task only when that task is the record in the store.
\<close>

theorem pages_guard_session_state:
  "(localStorage w ''currentTask'' = None
      \<longrightarrow> snd (TaskSession_mount w) = emit (Navigate ''/task-form'') w
          \<and> TaskSession_render (fst (TaskSession_mount w)) = Loading)
   \<and> (localStorage w ''completedTask'' = None
      \<longrightarrow> snd (TaskResults_mount w) = emit (Navigate ''/'') w
          \<and> TaskResults_render (fst (TaskResults_mount w)) = Loading
          \<and> snd (Feedback_mount w) = emit (Navigate ''/'') w
          \<and> Feedback_render (fst (Feedback_mount w)) = Loading)
   \<and> (TaskSession_render (fst (TaskSession_mount w)) = Content td
      \<longrightarrow> localStorage w ''currentTask'' = Some td)
   \<and> (TaskResults_render (fst (TaskResults_mount w)) = Content td
      \<longrightarrow> localStorage w ''completedTask'' = Some td)
   \<and> (Feedback_render (fst (Feedback_mount w)) = Content td
      \<longrightarrow> localStorage w ''completedTask'' = Some td)"
  by (auto simp: TaskSession_mount_def TaskResults_mount_def Feedback_mount_def
        TaskSession_render_def TaskResults_render_def Feedback_render_def
        TaskSession_init_def TaskResults_init_def split: option.splits)

theorem pages_guard_session_state_witness:
  "localStorage sample_world ''completedTask'' = None
   \<and> navigations (snd (TaskResults_mount sample_world)) = [''/'']
   \<and> navigations (snd (Feedback_mount sample_world)) = [''/'']
   \<and> localStorage (sample_world\<lparr>localStorage := Map.empty\<rparr>) ''currentTask'' = None
   \<and> navigations (snd (TaskSession_mount (sample_world\<lparr>localStorage := Map.empty\<rparr>)))
       = [''/task-form'']
   \<and> TaskSession_render (fst (TaskSession_mount sample_world)) = Content sample_task
   \<and> localStorage sample_world ''currentTask'' = Some sample_task"
  using pages_guard_session_state [of sample_world sample_task]
    pages_guard_session_state [of "sample_world\<lparr>localStorage := Map.empty\<rparr>" sample_task]
  by (simp add: sample_world_def TaskSession_mount_def TaskSession_render_def
        TaskSession_init_def navigations_def)

end
